theory Spec2Isabelle
  imports Main "HOL-Library.Sublist"
begin

section \<open>Strings\<close>

text \<open>
  Python strings are modelled as \<open>string\<close> (lists of 8-bit characters). The model covers
  ASCII text: one character is one byte, so \<open>length\<close> is both Python's \<open>len\<close> and the
  number of bytes the UTF-8 encoder writes. The character classes of \<open>str.isalnum\<close>,
  \<open>str.upper\<close> and \<open>str.strip\<close> are those of the ASCII range.
\<close>

abbreviation NL :: char where
  "NL \<equiv> CHR 0x0A"

definition ascii_lowercase :: string where
  "ascii_lowercase = ''abcdefghijklmnopqrstuvwxyz''"

definition ascii_uppercase :: string where
  "ascii_uppercase = ''ABCDEFGHIJKLMNOPQRSTUVWXYZ''"

definition ascii_digits :: string where
  "ascii_digits = ''0123456789''"

definition isalnum :: "char \<Rightarrow> bool" where
  "isalnum c = (c \<in> set (ascii_lowercase @ ascii_uppercase @ ascii_digits))"

definition upper_char :: "char \<Rightarrow> char" where
  "upper_char c =
     (case map_of (zip ascii_lowercase ascii_uppercase) c of Some u \<Rightarrow> u | None \<Rightarrow> c)"

definition upper :: "string \<Rightarrow> string" where
  "upper s = map upper_char s"

definition isspace :: "char \<Rightarrow> bool" where
  "isspace c = (c \<in> set [CHR 0x09, CHR 0x0A, CHR 0x0B, CHR 0x0C, CHR 0x0D,
                          CHR 0x1C, CHR 0x1D, CHR 0x1E, CHR 0x1F, CHR 0x20])"

definition strip :: "string \<Rightarrow> string" where
  "strip s = rev (dropWhile isspace (rev (dropWhile isspace s)))"

definition endswith :: "string \<Rightarrow> string \<Rightarrow> bool" where
  "endswith s suf = prefix (rev suf) (rev s)"

text \<open>\<open>str.replace(old, new)\<close>: the occurrences of \<open>old\<close> are found from left to right
  and do not overlap.\<close>

function replace :: "string \<Rightarrow> string \<Rightarrow> string \<Rightarrow> string" where
  "replace old new [] = (if old = [] then new else [])"
| "replace old new (c # cs) =
     (if old = [] then new @ c # replace old new cs
      else if prefix old (c # cs) then new @ replace old new (drop (length old) (c # cs))
      else c # replace old new cs)"
  by pat_completeness auto
termination
  by (relation "measure (\<lambda>(old, new, s). length s)") (auto simp: neq_Nil_conv)

text \<open>\<open>s.split('\n')\<close>: one more piece than there are newlines.\<close>

fun split_nl :: "string \<Rightarrow> string list" where
  "split_nl [] = [[]]"
| "split_nl (c # cs) =
     (if c = NL then [] # split_nl cs
      else (case split_nl cs of [] \<Rightarrow> [[c]] | l # ls \<Rightarrow> (c # l) # ls))"

text \<open>The format \<open>{n:06d}\<close>: decimal digits, padded with zeros to six places.\<close>

fun digits :: "nat \<Rightarrow> string" where
  "digits n =
     (if n < 10 then [ascii_digits ! n]
      else digits (n div 10) @ [ascii_digits ! (n mod 10)])"

declare digits.simps [simp del]

definition fmt06d :: "nat \<Rightarrow> string" where
  "fmt06d n = replicate (6 - length (digits n)) (CHR ''0'') @ digits n"

section \<open>Elements and the record extractor\<close>

text \<open>
  An \<open>xml.etree.ElementTree.Element\<close>: its tag (in the parser's \<open>{uri}local\<close> form), its
  attributes, its text and its children.
\<close>

datatype element =
  Element (tag: string) (attrib: "(string \<times> string) list") (elem_text: "string option")
    (children: "element list")

definition ns :: string where
  "ns = ''{http://www.peppol.eu/schema/pd/businesscard-generic/201907/}''"

text \<open>\<open>Element.iter()\<close>: the element and its descendants, in document order.\<close>

fun iter :: "element \<Rightarrow> element list" where
  "iter (Element t a x cs) = Element t a x cs # concat (map iter cs)"

text \<open>\<open>element.find(".//t")\<close>: the first descendant with tag \<open>t\<close>, the element itself
  excluded; \<open>element.find("t")\<close>: the first child with tag \<open>t\<close>.\<close>

definition find_descendant :: "string \<Rightarrow> element \<Rightarrow> element option" where
  "find_descendant t e = List.find (\<lambda>x. tag x = t) (concat (map iter (children e)))"

definition find_child :: "string \<Rightarrow> element \<Rightarrow> element option" where
  "find_child t e = List.find (\<lambda>x. tag x = t) (children e)"

definition get :: "element \<Rightarrow> string \<Rightarrow> string option" where
  "get e k = map_of (attrib e) k"

definition find_entity :: "element \<Rightarrow> element option" where
  "find_entity element =
     (case find_descendant (ns @ ''entity'') element of
        None \<Rightarrow> find_descendant ''entity'' element
      | Some entity \<Rightarrow> Some entity)"

definition extract_country :: "element \<Rightarrow> string option" where
  "extract_country element =
     (case find_entity element of
        Some entity \<Rightarrow> get entity ''countrycode''
      | None \<Rightarrow> None)"

definition extract_date :: "element \<Rightarrow> string option" where
  "extract_date element =
     (let regdate = (case find_descendant (ns @ ''regdate'') element of
                       None \<Rightarrow> find_descendant ''regdate'' element
                     | Some r \<Rightarrow> Some r)
      in case regdate of
           None \<Rightarrow> None
         | Some r \<Rightarrow>
             (case elem_text r of
                None \<Rightarrow> None
              | Some t \<Rightarrow>
                  if t = [] then None
                  else (let date_str = strip t
                        in if length date_str \<ge> 10 then Some (take 10 date_str) else None)))"

definition extract_entity_name :: "element \<Rightarrow> string option" where
  "extract_entity_name element =
     (case find_entity element of
        Some entity \<Rightarrow>
          (let name_element = (case find_child (ns @ ''name'') entity of
                                 None \<Rightarrow> find_child ''name'' entity
                               | Some n \<Rightarrow> Some n)
           in case name_element of
                Some n \<Rightarrow> get n ''name''
              | None \<Rightarrow> None)
      | None \<Rightarrow> None)"

text \<open>
  \<open>element_to_string\<close>. The serializer \<open>ET.tostring\<close> belongs to the standard library
  and is a parameter of the model; the three replacements are the program's.
\<close>

definition prefixed_declaration :: string where
  "prefixed_declaration =
     '' xmlns:ns0=\"http://www.peppol.eu/schema/pd/businesscard-generic/201907/\"''"

definition default_declaration :: string where
  "default_declaration =
     '' xmlns=\"http://www.peppol.eu/schema/pd/businesscard-generic/201907/\"''"

definition strip_namespaces :: "string \<Rightarrow> string" where
  "strip_namespaces xml_str =
     replace ''ns0:'' []
       (replace default_declaration []
          (replace prefixed_declaration [] xml_str))"

definition element_to_string :: "(element \<Rightarrow> string) \<Rightarrow> element \<Rightarrow> string" where
  "element_to_string tostring element = strip_namespaces (tostring element)"

text \<open>The statistics bucket of a record: its date, or the bucket synthesized from the
  entity name when the date is missing.\<close>

definition safe_name_of :: "string option \<Rightarrow> string" where
  "safe_name_of entity_name =
     (case entity_name of
        None \<Rightarrow> []
      | Some n \<Rightarrow> if n = [] then [] else upper (take 5 (filter isalnum n)))"

definition fallback_date :: "element \<Rightarrow> string" where
  "fallback_date elem =
     (let safe_name = safe_name_of (extract_entity_name elem)
      in if safe_name \<noteq> [] then ''2000-'' @ safe_name else ''2000-UNKNOWN'')"

definition date_bucket :: "element \<Rightarrow> string" where
  "date_bucket elem =
     (case extract_date elem of
        None \<Rightarrow> fallback_date elem
      | Some d \<Rightarrow> if d = [] then fallback_date elem else d)"

section \<open>The file system and the state of a run\<close>

text \<open>
  The output tree holds regular files only: a path maps to the bytes of the file there.
  A write handle is named by the path it was opened on; \<open>opened\<close> lists the handles that
  are open. A write through an open handle appends to the file (every handle of the
  program stands at the end of its file) and reaches the file at once: the buffer of a
  handle is not modelled, so \<open>st_size\<close> counts every byte written so far. A newline is
  one byte. A write through a closed handle raises \<open>ValueError\<close>; a write through
  \<open>None\<close> raises \<open>AttributeError\<close>. Failures of the operating system (a full disk, a
  missing permission) are not modelled. \<open>io_log\<close> is a record, kept for the proofs, of
  the calls made on output files, in order; the program does not read it. Directories,
  the log file and the console are left out.
\<close>

datatype error = FileNotFoundError | ParseError | ValueError | AttributeError

datatype io_event =
  Open_w string | Open_rw string | Write string string | Truncate string nat | Close string

record state =
  max_bytes :: int
  stats :: "string \<rightharpoonup> nat"
  file_stats :: "string \<rightharpoonup> nat"
  file_count :: nat
  files :: "string \<rightharpoonup> string"
  opened :: "string list"
  io_log :: "io_event list"
  processed_cards :: nat
  current_file_handle :: "string option"
  current_file_path :: "string option"

type_synonym outcome = "(error \<times> state) + state"

definition and_then :: "outcome \<Rightarrow> (state \<Rightarrow> outcome) \<Rightarrow> outcome" where
  "and_then r f = (case r of Inl x \<Rightarrow> Inl x | Inr s \<Rightarrow> f s)"

definition content :: "state \<Rightarrow> string \<Rightarrow> string" where
  "content s p = (case files s p of None \<Rightarrow> [] | Some c \<Rightarrow> c)"

definition exists :: "state \<Rightarrow> string \<Rightarrow> bool" where
  "exists s p = (files s p \<noteq> None)"

definition st_size :: "state \<Rightarrow> string \<Rightarrow> int" where
  "st_size s p = int (length (content s p))"

definition fopen_w :: "string \<Rightarrow> state \<Rightarrow> state" where
  "fopen_w p s =
     s\<lparr>files := (files s)(p \<mapsto> []), opened := opened s @ [p],
       io_log := io_log s @ [Open_w p]\<rparr>"

definition fopen_rw :: "string \<Rightarrow> state \<Rightarrow> outcome" where
  "fopen_rw p s =
     (if exists s p
      then Inr (s\<lparr>opened := opened s @ [p], io_log := io_log s @ [Open_rw p]\<rparr>)
      else Inl (FileNotFoundError, s))"

definition fwrite :: "string option \<Rightarrow> string \<Rightarrow> state \<Rightarrow> outcome" where
  "fwrite handle data s =
     (case handle of
        None \<Rightarrow> Inl (AttributeError, s)
      | Some h \<Rightarrow>
          if h \<in> set (opened s)
          then Inr (s\<lparr>files := (files s)(h \<mapsto> content s h @ data),
                      io_log := io_log s @ [Write h data]\<rparr>)
          else Inl (ValueError, s))"

definition fclose :: "string \<Rightarrow> state \<Rightarrow> state" where
  "fclose h s =
     (if h \<in> set (opened s)
      then s\<lparr>opened := remove1 h (opened s), io_log := io_log s @ [Close h]\<rparr>
      else s)"

section \<open>The partition router\<close>

definition closing_tag :: string where
  "closing_tag = ''</root>'' @ [NL]"

definition xml_declaration :: string where
  "xml_declaration = ''<?xml version=\"1.0\" encoding=\"UTF-8\"?>'' @ [NL]"

definition root_open :: string where
  "root_open =
     ''<root xmlns=\"http://www.peppol.eu/schema/pd/businesscard-generic/201907/\" version=\"2\">''
     @ [NL]"

definition extracts_dir :: string where
  "extracts_dir = ''extracts''"

text \<open>The path \<open>extracts_dir / country / f"business-cards.{sequence:06d}.xml"\<close>, with the
  country taken as one path component.\<close>

definition artifact_path :: "string \<Rightarrow> nat \<Rightarrow> string" where
  "artifact_path country sequence =
     extracts_dir @ ''/'' @ country @ ''/business-cards.'' @ fmt06d sequence @ ''.xml''"

text \<open>\<open>self.file_stats.setdefault(country, {'sequence': 1})\<close>: the entry of the country,
  created with sequence 1 when there is none. The entry's only field is its sequence.\<close>

definition setdefault_sequence :: "string \<Rightarrow> state \<Rightarrow> nat \<times> state" where
  "setdefault_sequence country s =
     (case file_stats s country of
        None \<Rightarrow> (1, s\<lparr>file_stats := (file_stats s)(country \<mapsto> 1)\<rparr>)
      | Some n \<Rightarrow> (n, s))"

text \<open>The rollover test: a file is at the path and its size exceeds \<open>max_bytes\<close>.\<close>

definition rollover_due :: "state \<Rightarrow> string \<Rightarrow> bool" where
  "rollover_due s output_path = (exists s output_path \<and> st_size s output_path > max_bytes s)"

text \<open>Closing the open file: the closing tag is written, then the handle is closed. The
  router does so before it opens another file, and the \<open>finally\<close> block when the loop
  is left.\<close>

definition close_current :: "state \<Rightarrow> outcome" where
  "close_current s =
     (case current_file_handle s of
        None \<Rightarrow> Inr s
      | Some h \<Rightarrow> and_then (fwrite (Some h) closing_tag s) (\<lambda>s. Inr (fclose h s)))"

text \<open>A new file is opened for writing and gets its header. A file that exists is opened
  for reading and writing and cut \<open>len('</root>\n')\<close> characters before its end; a seek
  to a negative position raises \<open>ValueError\<close>.\<close>

definition create_output :: "string \<Rightarrow> state \<Rightarrow> outcome" where
  "create_output output_path s =
     (let s = (fopen_w output_path s)\<lparr>current_file_handle := Some output_path\<rparr>
      in and_then (fwrite (current_file_handle s) xml_declaration s) (\<lambda>s.
         and_then (fwrite (current_file_handle s) root_open s) (\<lambda>s.
         Inr (s\<lparr>file_count := file_count s + 1\<rparr>))))"

definition reopen_output :: "string \<Rightarrow> state \<Rightarrow> outcome" where
  "reopen_output output_path s =
     and_then (fopen_rw output_path s) (\<lambda>s.
       (let s = s\<lparr>current_file_handle := Some output_path\<rparr>;
            position = st_size s output_path - int (length closing_tag)
        in if position < 0 then Inl (ValueError, s)
           else Inr (s\<lparr>files := (files s)(output_path \<mapsto>
                                   take (nat position) (content s output_path)),
                       io_log := io_log s @ [Truncate output_path (nat position)]\<rparr>)))"

definition open_output :: "string \<Rightarrow> state \<Rightarrow> outcome" where
  "open_output output_path s =
     (let file_exists = exists s output_path
      in if \<not> file_exists then create_output output_path s
         else reopen_output output_path s)"

definition switch_file :: "string \<Rightarrow> state \<Rightarrow> outcome" where
  "switch_file output_path s =
     (if Some output_path \<noteq> current_file_path s
      then and_then (close_current s) (\<lambda>s.
           and_then (open_output output_path s) (\<lambda>s.
           Inr (s\<lparr>current_file_path := Some output_path\<rparr>)))
      else Inr s)"

fun write_lines :: "string list \<Rightarrow> state \<Rightarrow> outcome" where
  "write_lines [] s = Inr s"
| "write_lines (line # rest) s =
     (if strip line \<noteq> []
      then and_then (fwrite (current_file_handle s) (''  '' @ line @ [NL]) s) (write_lines rest)
      else write_lines rest s)"

definition write_card :: "(element \<Rightarrow> string) \<Rightarrow> element \<Rightarrow> state \<Rightarrow> outcome" where
  "write_card tostring elem s = write_lines (split_nl (element_to_string tostring elem)) s"

definition route :: "(element \<Rightarrow> string) \<Rightarrow> element \<Rightarrow> string \<Rightarrow> state \<Rightarrow> outcome" where
  "route tostring elem country s =
     (case setdefault_sequence country s of
        (sequence, s) \<Rightarrow>
          (let output_path = artifact_path country sequence
           in if rollover_due s output_path
              then (let s = s\<lparr>file_stats := (file_stats s)(country \<mapsto> sequence + 1)\<rparr>;
                        output_path = artifact_path country (sequence + 1)
                    in and_then (switch_file output_path s) (write_card tostring elem))
              else and_then (switch_file output_path s) (write_card tostring elem)))"

section \<open>The stream driver\<close>

definition bump :: "(string \<rightharpoonup> nat) \<Rightarrow> string \<Rightarrow> (string \<rightharpoonup> nat)" where
  "bump m k = m(k \<mapsto> (case m k of None \<Rightarrow> 0 | Some c \<Rightarrow> c) + 1)"

text \<open>The body of the loop for one parser event. The element is the one the parser hands
  over at its end event, as it stands then; \<open>elem.clear()\<close> changes only what later
  events hand over, so the events are taken as a list of elements. The progress message
  is left out. \<open>process_card\<close> is the branch taken for a record element.\<close>

definition process_card :: "(element \<Rightarrow> string) \<Rightarrow> element \<Rightarrow> state \<Rightarrow> outcome" where
  "process_card tostring elem s =
     (let s = s\<lparr>processed_cards := processed_cards s + 1\<rparr>;
          country = extract_country elem
      in case country of
           None \<Rightarrow> Inr s
         | Some c \<Rightarrow>
             if c = [] then Inr s
             else (let s = s\<lparr>stats := bump (stats s) (''country_'' @ c)\<rparr>;
                       date = date_bucket elem;
                       s = s\<lparr>stats := bump (stats s) (''date_'' @ date)\<rparr>
                   in route tostring elem c s))"

definition handle_event :: "(element \<Rightarrow> string) \<Rightarrow> element \<Rightarrow> state \<Rightarrow> outcome" where
  "handle_event tostring elem s =
     (if endswith (tag elem) ''businesscard'' then process_card tostring elem s else Inr s)"

text \<open>The parser's events end with the end of the document or with a parse error.\<close>

datatype parse_end = Eof | Malformed

fun run_loop :: "(element \<Rightarrow> string) \<Rightarrow> element list \<Rightarrow> parse_end \<Rightarrow> state \<Rightarrow> outcome" where
  "run_loop tostring [] Eof s = Inr s"
| "run_loop tostring [] Malformed s = Inl (ParseError, s)"
| "run_loop tostring (elem # rest) pe s =
     and_then (handle_event tostring elem s) (run_loop tostring rest pe)"

definition enter_loop :: "state \<Rightarrow> state" where
  "enter_loop s =
     s\<lparr>processed_cards := 0, current_file_handle := None, current_file_path := None\<rparr>"

text \<open>\<open>process_xml\<close>: the input is \<open>None\<close> when the input file does not exist. The
  \<open>finally\<close> block runs however the loop is left; an exception it raises replaces the
  one of the loop.\<close>

definition process_xml ::
  "(element \<Rightarrow> string) \<Rightarrow> (element list \<times> parse_end) option \<Rightarrow> state \<Rightarrow> (error + nat) \<times> state"
where
  "process_xml tostring input_file s =
     (case input_file of
        None \<Rightarrow> (Inl FileNotFoundError, s)
      | Some (events, pe) \<Rightarrow>
          (case run_loop tostring events pe (enter_loop s) of
             Inr s \<Rightarrow>
               (case close_current s of
                  Inr s \<Rightarrow> (Inr (processed_cards s), s)
                | Inl (e, s) \<Rightarrow> (Inl e, s))
           | Inl (e, s) \<Rightarrow>
               (case close_current s of
                  Inr s \<Rightarrow> (Inl e, s)
                | Inl (e', s) \<Rightarrow> (Inl e', s))))"

text \<open>The state of a fresh \<open>PeppolSync\<close> object over a given output tree.\<close>

definition init :: "int \<Rightarrow> (string \<rightharpoonup> string) \<Rightarrow> state" where
  "init mb fs =
     \<lparr>max_bytes = mb, stats = Map.empty, file_stats = Map.empty, file_count = 0,
      files = fs, opened = [], io_log = [], processed_cards = 0,
      current_file_handle = None, current_file_path = None\<rparr>"

section \<open>Auxiliary definitions\<close>

text \<open>The state an outcome leaves behind, whether the step returned or raised.\<close>

definition state_of :: "outcome \<Rightarrow> state" where
  "state_of r = (case r of Inl (e, s) \<Rightarrow> s | Inr s \<Rightarrow> s)"

text \<open>The fields that no operation on output files touches.\<close>

definition keep :: "state \<Rightarrow> int \<times> (string \<rightharpoonup> nat) \<times> (string \<rightharpoonup> nat) \<times> nat" where
  "keep s = (max_bytes s, stats s, file_stats s, processed_cards s)"

section \<open>The discipline of output calls\<close>

text \<open>
  The calls on output files are read against a small automaton: a file is opened only
  when none is open; writes and the truncation go to the open file; the handle is closed
  only right after the closing tag was written through it.
\<close>

datatype phase = Idle | Writing string | Sealed string

fun protocol_step :: "phase \<Rightarrow> io_event \<Rightarrow> phase option" where
  "protocol_step Idle (Open_w p) = Some (Writing p)"
| "protocol_step Idle (Open_rw p) = Some (Writing p)"
| "protocol_step (Writing h) (Write p d) =
     (if p = h then Some (if d = closing_tag then Sealed h else Writing h) else None)"
| "protocol_step (Writing h) (Truncate p n) = (if p = h then Some (Writing h) else None)"
| "protocol_step (Sealed h) (Close p) = (if p = h then Some Idle else None)"
| "protocol_step _ _ = None"

fun protocol :: "phase \<Rightarrow> io_event list \<Rightarrow> phase option" where
  "protocol ph [] = Some ph"
| "protocol ph (e # es) =
     (case protocol_step ph e of None \<Rightarrow> None | Some ph' \<Rightarrow> protocol ph' es)"



section \<open>Invariants of the loop\<close>

text \<open>
  \<open>good k s\<close>: the open handles are exactly the handle the loop holds, the file of that
  handle exists, and the calls logged from position \<open>k\<close> on follow the discipline.
  \<open>mid k s\<close> describes the state between closing one file and opening the next.
  \<open>tracked\<close> adds that the path the loop remembers is the path of its handle.
  \<open>contiguous s\<close>: every country's sequence is at least 1 and an artifact exists for
  each sequence number up to it. \<open>grows s s'\<close>: no file of \<open>s\<close> is missing in \<open>s'\<close>.
\<close>

definition handle_list :: "state \<Rightarrow> string list" where
  "handle_list s = (case current_file_handle s of None \<Rightarrow> [] | Some h \<Rightarrow> [h])"

definition phase_of :: "state \<Rightarrow> phase" where
  "phase_of s = (case current_file_handle s of None \<Rightarrow> Idle | Some h \<Rightarrow> Writing h)"

definition good :: "nat \<Rightarrow> state \<Rightarrow> bool" where
  "good k s \<longleftrightarrow>
     opened s = handle_list s \<and>
     (case current_file_handle s of None \<Rightarrow> True | Some h \<Rightarrow> exists s h) \<and>
     k \<le> length (io_log s) \<and>
     protocol Idle (drop k (io_log s)) = Some (phase_of s)"


definition contiguous :: "state \<Rightarrow> bool" where
  "contiguous s \<longleftrightarrow>
     (\<forall>c n. file_stats s c = Some n \<longrightarrow>
        1 \<le> n \<and> (\<forall>k. 1 \<le> k \<and> k \<le> n \<longrightarrow> exists s (artifact_path c k)))"

definition tracked :: "nat \<Rightarrow> state \<Rightarrow> bool" where
  "tracked k s \<longleftrightarrow> good k s \<and> current_file_path s = current_file_handle s"

definition grows :: "state \<Rightarrow> state \<Rightarrow> bool" where
  "grows s s' \<longleftrightarrow> (\<forall>p. exists s p \<longrightarrow> exists s' p)"

section \<open>Cutting occurrences out of a text\<close>



section \<open>Example inputs\<close>

definition acme_card :: element where
  "acme_card =
     Element (ns @ ''businesscard'') [] None
       [Element (ns @ ''entity'') [(''countrycode'', ''BE'')] None
          [Element (ns @ ''name'') [(''name'', ''Acme5 Corp!'')] None []]]"

text \<open>What \<open>ET.tostring\<close> returns for \<open>acme_card\<close>.\<close>

definition acme_xml :: string where
  "acme_xml =
     ''<ns0:businesscard xmlns:ns0=\"http://www.peppol.eu/schema/pd/businesscard-generic/201907/\">''
     @ ''<ns0:entity countrycode=\"BE\"><ns0:name name=\"Acme5 Corp!\" /></ns0:entity>''
     @ ''</ns0:businesscard>''"



definition stateless_card :: element where
  "stateless_card =
     Element (ns @ ''businesscard'') [] None
       [Element (ns @ ''participant'') [(''scheme'', ''iso6523-actorid-upis'')] None []]"

definition codeless_card :: element where
  "codeless_card =
     Element (ns @ ''businesscard'') [] None
       [Element (ns @ ''entity'') [] None
          [Element (ns @ ''name'') [(''name'', ''Foo Ltd'')] None []]]"

definition blank_country_card :: element where
  "blank_country_card =
     Element (ns @ ''businesscard'') [] None
       [Element (ns @ ''entity'') [(''countrycode'', [])] None
          [Element (ns @ ''name'') [(''name'', ''Foo Ltd'')] None []]]"

text \<open>An artifact as a finished run leaves it, and a tree that holds one.\<close>

definition closed_artifact :: string where
  "closed_artifact = xml_declaration @ root_open @ closing_tag"

definition oversized_tree :: "string \<rightharpoonup> string" where
  "oversized_tree = [artifact_path ''BE'' 1 \<mapsto> closed_artifact]"

definition acme_line :: string where
  "acme_line = ''  <businesscard><entity countrycode=\"BE\"><name name=\"Acme5 Corp!\" /></entity></businesscard>'' @ [NL]"




definition damaged_artifact :: string where
  "damaged_artifact = xml_declaration @ root_open @ acme_line"

definition damaged_tree :: "string \<rightharpoonup> string" where
  "damaged_tree = [artifact_path ''BE'' 1 \<mapsto> damaged_artifact]"


text \<open>One record, then the end of the document.\<close>

definition one_card :: "(element list \<times> parse_end) option" where
  "one_card = Some ([acme_card], Eof)"

section \<open>Basic facts\<close>

lemmas char_tables = isalnum_def upper_def upper_char_def ascii_lowercase_def
  ascii_uppercase_def ascii_digits_def

lemmas extract_defs = extract_country_def extract_date_def extract_entity_name_def
  find_entity_def find_descendant_def find_child_def get_def ns_def

lemmas bucket_defs = date_bucket_def fallback_date_def safe_name_of_def

lemmas path_defs = artifact_path_def extracts_dir_def fmt06d_def digits.simps ascii_digits_def

lemma upper_Nil_iff [simp]: "upper s = [] \<longleftrightarrow> s = []"
  by (simp add: upper_def)

lemma endswith_iff: "endswith s suf \<longleftrightarrow> (\<exists>pre. s = pre @ suf)"
proof
  assume "endswith s suf"
  then obtain zs where "rev s = rev suf @ zs"
    by (auto simp: endswith_def prefix_def)
  then have "s = rev zs @ suf"
    by (metis rev_append rev_rev_ident)
  then show "\<exists>pre. s = pre @ suf" ..
next
  assume "\<exists>pre. s = pre @ suf"
  then show "endswith s suf"
    by (auto simp: endswith_def)
qed

lemma acme_facts:
  "endswith (tag acme_card) ''businesscard''"
  "extract_country acme_card = Some ''BE''"
  "extract_date acme_card = None"
  "extract_entity_name acme_card = Some ''Acme5 Corp!''"
  by (simp_all add: acme_card_def endswith_def extract_defs)

subsection \<open>Fields the output operations leave alone\<close>

lemma state_of_simps [simp]: "state_of (Inr s) = s" "state_of (Inl (e, s)) = s"
  by (simp_all add: state_of_def)

lemma keep_updates [simp]:
  "keep (s\<lparr>file_count := n\<rparr>) = keep s"
  "keep (s\<lparr>files := f\<rparr>) = keep s"
  "keep (s\<lparr>opened := hs\<rparr>) = keep s"
  "keep (s\<lparr>io_log := l\<rparr>) = keep s"
  "keep (s\<lparr>current_file_handle := h\<rparr>) = keep s"
  "keep (s\<lparr>current_file_path := p\<rparr>) = keep s"
  by (simp_all add: keep_def)

lemma keepD:
  assumes "keep a = keep b"
  shows "max_bytes a = max_bytes b" "stats a = stats b" "file_stats a = file_stats b"
    "processed_cards a = processed_cards b"
  using assms by (simp_all add: keep_def)

lemma keep_and_then:
  assumes "keep (state_of r) = keep s" and "\<And>s'. keep (state_of (f s')) = keep s'"
  shows "keep (state_of (and_then r f)) = keep s"
  using assms by (cases r) (auto simp: and_then_def)

lemma keep_fwrite [simp]: "keep (state_of (fwrite h d s)) = keep s"
  by (simp add: fwrite_def split: option.splits)

lemma keep_fclose [simp]: "keep (fclose h s) = keep s"
  by (simp add: fclose_def)

lemma keep_close_current [simp]: "keep (state_of (close_current s)) = keep s"
  unfolding close_current_def
  by (cases "current_file_handle s") (simp_all add: keep_and_then)

lemma keep_create_output [simp]: "keep (state_of (create_output p s)) = keep s"
  unfolding create_output_def Let_def
  by (intro keep_and_then) (simp_all add: fopen_w_def)

lemma keep_reopen_output [simp]: "keep (state_of (reopen_output p s)) = keep s"
  by (simp add: reopen_output_def fopen_rw_def and_then_def Let_def)

lemma keep_open_output [simp]: "keep (state_of (open_output p s)) = keep s"
  by (simp add: open_output_def)

lemma keep_switch_file [simp]: "keep (state_of (switch_file p s)) = keep s"
  unfolding switch_file_def
  by (auto intro!: keep_and_then)

lemma keep_write_lines [simp]: "keep (state_of (write_lines ls s)) = keep s"
  by (induction ls arbitrary: s) (auto intro!: keep_and_then)

lemma keep_write_card [simp]: "keep (state_of (write_card ts e s)) = keep s"
  by (simp add: write_card_def)

lemma keep_switch_write:
  "keep (state_of (and_then (switch_file p s) (write_card ts e))) = keep s"
  by (intro keep_and_then) simp_all

lemmas switch_write_fields [simp] = keepD [OF keep_switch_write]

lemma rollover_due_updates [simp]:
  "rollover_due (s\<lparr>file_stats := fs\<rparr>) p = rollover_due s p"
  "rollover_due (s\<lparr>stats := st\<rparr>) p = rollover_due s p"
  "rollover_due (s\<lparr>processed_cards := n\<rparr>) p = rollover_due s p"
  by (simp_all add: rollover_due_def exists_def st_size_def content_def)


lemma route_counters:
  "processed_cards (state_of (route ts elem c s)) = processed_cards s"
  "stats (state_of (route ts elem c s)) = stats s"
  "max_bytes (state_of (route ts elem c s)) = max_bytes s"
  by (cases "file_stats s c"; simp add: route_def setdefault_sequence_def Let_def)+

subsection \<open>Evaluating the examples\<close>

lemmas io_defs = fopen_w_def fopen_rw_def fwrite_def fclose_def exists_def st_size_def content_def
  and_then_def

lemmas router_defs = route_def setdefault_sequence_def rollover_due_def switch_file_def
  close_current_def open_output_def create_output_def reopen_output_def write_card_def
  element_to_string_def

lemmas driver_defs = process_xml_def enter_loop_def handle_event_def process_card_def init_def
  bump_def

lemmas tag_defs = closing_tag_def xml_declaration_def root_open_def

lemma strip_namespaces_acme:
  "strip_namespaces acme_xml =
     ''<businesscard><entity countrycode=\"BE\"><name name=\"Acme5 Corp!\" /></entity></businesscard>''"
  by (simp add: strip_namespaces_def acme_xml_def prefixed_declaration_def default_declaration_def)

lemma write_card_acme [simp]:
  "write_card (\<lambda>_. acme_xml) e s = fwrite (current_file_handle s) acme_line s"
  by (simp add: write_card_def element_to_string_def strip_namespaces_acme strip_def isspace_def
      acme_line_def and_then_def split: sum.splits)

lemma paths:
  "artifact_path ''BE'' 1 = ''extracts/BE/business-cards.000001.xml''"
  "artifact_path ''BE'' 2 = ''extracts/BE/business-cards.000002.xml''"
  "artifact_path ''BE'' 3 = ''extracts/BE/business-cards.000003.xml''"
  "artifact_path ''BE'' (Suc 0) = ''extracts/BE/business-cards.000001.xml''"
  "artifact_path ''BE'' (Suc (Suc 0)) = ''extracts/BE/business-cards.000002.xml''"
  "artifact_path ''BE'' (Suc (Suc (Suc 0))) = ''extracts/BE/business-cards.000003.xml''"
  by (simp_all add: path_defs eval_nat_numeral)

lemmas run_defs = driver_defs router_defs io_defs acme_facts bucket_defs char_tables
  oversized_tree_def closed_artifact_def tag_defs paths write_card_acme Let_def acme_line_def

subsection \<open>The invariants are kept\<close>



lemma closing_tag_neq [simp]: "xml_declaration \<noteq> closing_tag" "root_open \<noteq> closing_tag"
  "CHR '' '' # l \<noteq> closing_tag"
  by (simp_all add: xml_declaration_def root_open_def closing_tag_def)





lemma grows_refl [simp]: "grows s s"
  by (simp add: grows_def)


lemma good_path_update [simp]: "good k (s\<lparr>current_file_path := p\<rparr>) = good k s"
  by (cases "current_file_handle s") (simp_all add: good_def handle_list_def phase_of_def exists_def)

lemma grows_path_update [simp]: "grows s (s'\<lparr>current_file_path := p\<rparr>) = grows s s'"
  by (simp add: grows_def exists_def)






lemma good_counter_updates [simp]:
  "good k (s\<lparr>file_stats := fs\<rparr>) = good k s"
  "good k (s\<lparr>stats := st\<rparr>) = good k s"
  "good k (s\<lparr>processed_cards := n\<rparr>) = good k s"
  by (cases "current_file_handle s";
      simp add: good_def handle_list_def phase_of_def exists_def)+

lemma exists_counter_updates [simp]:
  "exists (s\<lparr>file_stats := fs\<rparr>) p = exists s p"
  "exists (s\<lparr>stats := st\<rparr>) p = exists s p"
  "exists (s\<lparr>processed_cards := n\<rparr>) p = exists s p"
  by (simp_all add: exists_def)

lemma grows_counter_updates [simp]:
  "grows s (s'\<lparr>processed_cards := n\<rparr>) = grows s s'"
  "grows (s\<lparr>file_stats := fs\<rparr>) s' = grows s s'"
  "grows (s\<lparr>stats := st\<rparr>) s' = grows s s'"
  "grows (s\<lparr>processed_cards := n\<rparr>) s' = grows s s'"
  by (simp_all add: grows_def)



lemma contiguous_processed [simp]:
  "contiguous (s\<lparr>processed_cards := n\<rparr>) = contiguous s"
  "contiguous (s\<lparr>stats := st\<rparr>) = contiguous s"
  by (simp_all add: contiguous_def)

lemma tracked_counter_updates [simp]:
  "tracked k (s\<lparr>stats := st\<rparr>) = tracked k s"
  "tracked k (s\<lparr>processed_cards := n\<rparr>) = tracked k s"
  by (simp_all add: tracked_def)








lemma contiguous_enter_loop [simp]: "contiguous (enter_loop s) = contiguous s"
  by (simp add: contiguous_def enter_loop_def exists_def)





subsection \<open>Replacement only cuts\<close>




subsection \<open>The example run\<close>



section \<open>The rollover test\<close>



section \<open>The fallback bucket\<close>



section \<open>Records without a country\<close>

text \<open>
  Claim C7. A record element with no entity element, or whose entity has no
  \<open>countrycode\<close> attribute, adds one to the count of processed records and changes
  nothing else: no file is written, no handle is opened or closed, and no country or date
  statistic is counted.
\<close>

theorem excluded_without_country:
  assumes "endswith (tag elem) ''businesscard''"
    and "find_entity elem = None \<or>
         (\<exists>entity. find_entity elem = Some entity \<and> get entity ''countrycode'' = None)"
  shows "handle_event ts elem s = Inr (s\<lparr>processed_cards := processed_cards s + 1\<rparr>)"
  using assms
  by (auto simp: handle_event_def process_card_def extract_country_def)

theorem excluded_without_country_witness:
  "endswith (tag stateless_card) ''businesscard'' \<and> find_entity stateless_card = None \<and>
   handle_event (\<lambda>_. []) stateless_card (init 1000000 oversized_tree) =
     Inr ((init 1000000 oversized_tree)\<lparr>processed_cards := 1\<rparr>) \<and>
   endswith (tag codeless_card) ''businesscard'' \<and>
   (\<exists>entity. find_entity codeless_card = Some entity \<and> get entity ''countrycode'' = None) \<and>
   handle_event (\<lambda>_. []) codeless_card (init 1000000 oversized_tree) =
     Inr ((init 1000000 oversized_tree)\<lparr>processed_cards := 1\<rparr>)"
proof -
  have t1: "endswith (tag stateless_card) ''businesscard''"
    by (simp add: stateless_card_def endswith_def)
  have e1: "find_entity stateless_card = None"
    by (simp add: stateless_card_def extract_defs)
  have t2: "endswith (tag codeless_card) ''businesscard''"
    by (simp add: codeless_card_def endswith_def)
  have e2: "\<exists>entity. find_entity codeless_card = Some entity \<and> get entity ''countrycode'' = None"
    by (simp add: codeless_card_def extract_defs)
  have p0: "processed_cards (init 1000000 oversized_tree) = 0"
    by (simp add: init_def)
  show ?thesis
    using excluded_without_country [OF t1 disjI1 [OF e1], of "\<lambda>_. []" "init 1000000 oversized_tree"]
      excluded_without_country [OF t2 disjI2 [OF e2], of "\<lambda>_. []" "init 1000000 oversized_tree"]
      t1 e1 t2 e2
    by (simp add: p0)
qed

section \<open>The record test\<close>

text \<open>
  Claim C9. An element is a record exactly when its tag ends with \<open>businesscard\<close>: a
  namespace-qualified tag does, and so does an unrelated tag such as
  \<open>notabusinesscard\<close>. Every such element is counted as processed and goes through
  extraction and routing; every other element leaves the state as it is.
\<close>

theorem record_suffix_test:
  "handle_event ts elem s =
     (if \<exists>pre. tag elem = pre @ ''businesscard'' then process_card ts elem s else Inr s) \<and>
   processed_cards (state_of (process_card ts elem s)) = processed_cards s + 1 \<and>
   endswith (ns @ ''businesscard'') ''businesscard'' \<and>
   endswith ''notabusinesscard'' ''businesscard'' \<and>
   \<not> endswith (ns @ ''entity'') ''businesscard''"
proof -
  have "processed_cards (state_of (process_card ts elem s)) = processed_cards s + 1"
    by (simp add: process_card_def Let_def route_counters split: option.splits)
  moreover have "endswith (ns @ ''businesscard'') ''businesscard''"
    by (simp add: endswith_def)
  moreover have "endswith ''notabusinesscard'' ''businesscard''"
    by (simp add: endswith_def)
  moreover have "\<not> endswith (ns @ ''entity'') ''businesscard''"
    by (simp add: endswith_def ns_def)
  ultimately show ?thesis
    by (simp add: handle_event_def endswith_iff)
qed

theorem record_suffix_test_witness:
  "handle_event (\<lambda>_. []) (Element ''notabusinesscard'' [] None []) (init 1000000 Map.empty) =
     Inr ((init 1000000 Map.empty)\<lparr>processed_cards := 1\<rparr>) \<and>
   handle_event (\<lambda>_. []) (Element (ns @ ''entity'') [(''countrycode'', ''BE'')] None [])
     (init 1000000 Map.empty) = Inr (init 1000000 Map.empty)"
proof -
  have a: "\<exists>pre. ''notabusinesscard'' = pre @ ''businesscard''"
    by (rule exI [of _ "''nota''"]) simp
  have b: "\<not> (\<exists>pre. ns @ ''entity'' = pre @ ''businesscard'')"
    using record_suffix_test [of "\<lambda>_. []" "Element ''x'' [] None []" "init 0 Map.empty"]
    by (simp add: endswith_iff)
  have c: "process_card (\<lambda>_. []) (Element ''notabusinesscard'' [] None []) (init 1000000 Map.empty) =
      Inr ((init 1000000 Map.empty)\<lparr>processed_cards := 1\<rparr>)"
    by (simp add: process_card_def extract_defs init_def)
  show ?thesis
    using record_suffix_test [of "\<lambda>_. []" "Element ''notabusinesscard'' [] None []"
        "init 1000000 Map.empty"]
      record_suffix_test [of "\<lambda>_. []"
        "Element (ns @ ''entity'') [(''countrycode'', ''BE'')] None []" "init 1000000 Map.empty"]
      a b c
    by simp
qed

section \<open>An empty country code\<close>

text \<open>
  Claim C10. When the entity of a record carries a \<open>countrycode\<close> attribute that is the
  empty string, \<open>extract_country\<close> returns the empty string, the guard of the router
  takes it as false, and the record is handled as one with no country: it is counted as
  processed and nothing else changes.
\<close>

theorem blank_country_excluded:
  assumes "endswith (tag elem) ''businesscard''"
    and "find_entity elem = Some entity" and "get entity ''countrycode'' = Some []"
  shows "extract_country elem = Some [] \<and>
         handle_event ts elem s = Inr (s\<lparr>processed_cards := processed_cards s + 1\<rparr>)"
  using assms
  by (auto simp: handle_event_def process_card_def extract_country_def)

theorem blank_country_excluded_witness:
  "endswith (tag blank_country_card) ''businesscard'' \<and>
   extract_country blank_country_card = Some [] \<and>
   handle_event (\<lambda>_. acme_xml) blank_country_card (init 1000000 oversized_tree) =
     Inr ((init 1000000 oversized_tree)\<lparr>processed_cards := 1\<rparr>) \<and>
   handle_event (\<lambda>_. acme_xml) blank_country_card (init 1000000 oversized_tree) =
     handle_event (\<lambda>_. acme_xml) stateless_card (init 1000000 oversized_tree)"
proof -
  have t: "endswith (tag blank_country_card) ''businesscard''"
    by (simp add: blank_country_card_def endswith_def)
  obtain entity where e: "find_entity blank_country_card = Some entity"
    and g: "get entity ''countrycode'' = Some []"
    by (simp add: blank_country_card_def extract_defs)
  have p0: "processed_cards (init 1000000 oversized_tree) = 0"
    by (simp add: init_def)
  have n: "handle_event (\<lambda>_. acme_xml) stateless_card (init 1000000 oversized_tree) =
     Inr ((init 1000000 oversized_tree)\<lparr>processed_cards := 1\<rparr>)"
    by (simp add: handle_event_def process_card_def stateless_card_def endswith_def extract_defs
        init_def)
  show ?thesis
    using blank_country_excluded [OF t e g, of "\<lambda>_. acme_xml" "init 1000000 oversized_tree"] t n
    by (simp add: p0)
qed

section \<open>Finalization\<close>



section \<open>Sequence numbers\<close>



section \<open>One open file\<close>



section \<open>Namespace stripping\<close>




section \<open>Reopening an artifact\<close>

text \<open>
  Claim C2, as amended. When the router reopens an artifact that exists, it does not look
  at the trailing bytes and raises no error for them: for every file at least as long as
  the closing tag it cuts away the last \<open>len('</root>\n')\<close> bytes, whatever they are,
  and the handle is open on the file. For every file that does end with the closing tag,
  exactly that tag is cut away, so that the next write lands right after the body, inside
  the wrapper.
\<close>

theorem reopen_truncates:
  assumes "files s p = Some c" and "length closing_tag \<le> length c"
  shows "open_output p s = reopen_output p s \<and>
         (\<exists>s'. reopen_output p s = Inr s' \<and>
              files s' = (files s)(p \<mapsto> take (length c - length closing_tag) c) \<and>
              opened s' = opened s @ [p] \<and> current_file_handle s' = Some p \<and>
              (\<forall>body. c = body @ closing_tag \<longrightarrow>
                   files s' p = Some body \<and>
                   (\<forall>d. \<exists>s''. fwrite (current_file_handle s') d s' = Inr s'' \<and>
                        files s'' p = Some (body @ d))))"
proof -
  define s' where "s' = s\<lparr>opened := opened s @ [p], io_log := io_log s @ [Open_rw p],
      current_file_handle := Some p,
      files := (files s)(p \<mapsto> take (length c - length closing_tag) c),
      io_log := io_log s @ [Open_rw p, Truncate p (length c - length closing_tag)]\<rparr>"
  have o: "open_output p s = reopen_output p s"
    using assms by (simp add: open_output_def exists_def)
  have r: "reopen_output p s = Inr s'"
    using assms
    by (simp add: reopen_output_def fopen_rw_def and_then_def exists_def st_size_def content_def
        Let_def s'_def nat_diff_distrib' of_nat_diff)
  have f: "files s' = (files s)(p \<mapsto> take (length c - length closing_tag) c)"
    "opened s' = opened s @ [p]" "current_file_handle s' = Some p"
    by (simp_all add: s'_def)
  have w: "\<exists>s''. fwrite (current_file_handle s') d s' = Inr s'' \<and> files s'' p = Some (body @ d)"
    if "c = body @ closing_tag" for body d
    using that by (simp add: fwrite_def f content_def)
  from o r f w show ?thesis
    by auto
qed

theorem reopen_truncates_witness:
  "files (init 1000000 oversized_tree) (artifact_path ''BE'' 1) = Some closed_artifact \<and>
   length closing_tag \<le> length closed_artifact \<and>
   files (state_of (reopen_output (artifact_path ''BE'' 1) (init 1000000 oversized_tree)))
     (artifact_path ''BE'' 1) = Some (xml_declaration @ root_open) \<and>
   files (snd (process_xml (\<lambda>_. acme_xml) one_card (init 1000000 oversized_tree)))
     (artifact_path ''BE'' 1) = Some (xml_declaration @ root_open @ acme_line @ closing_tag)"
proof -
  have f: "files (init 1000000 oversized_tree) (artifact_path ''BE'' 1) = Some closed_artifact"
    by (simp add: init_def oversized_tree_def)
  have l: "length closing_tag \<le> length closed_artifact"
    by (simp add: closed_artifact_def)
  from reopen_truncates [OF f l] obtain s' where
    r: "reopen_output (artifact_path ''BE'' 1) (init 1000000 oversized_tree) = Inr s'"
    and b: "\<forall>body. closed_artifact = body @ closing_tag \<longrightarrow>
                   files s' (artifact_path ''BE'' 1) = Some body"
    by blast
  from b have "files s' (artifact_path ''BE'' 1) = Some (xml_declaration @ root_open)"
    by (simp add: closed_artifact_def)
  moreover have "files (snd (process_xml (\<lambda>_. acme_xml) one_card (init 1000000 oversized_tree)))
     (artifact_path ''BE'' 1) = Some (xml_declaration @ root_open @ acme_line @ closing_tag)"
    by (simp add: one_card_def run_defs)
  ultimately show ?thesis
    using f l r by simp
qed

text \<open>
  The claim as stated fails: an artifact that a killed run left without its closing tag
  is reopened without any error, and the last eight bytes of its last record are cut.
\<close>

theorem reopen_truncates_counterexample:
  "\<not> endswith damaged_artifact closing_tag \<and>
   \<not> isl (reopen_output (artifact_path ''BE'' 1) (init 1000000 damaged_tree)) \<and>
   files (state_of (reopen_output (artifact_path ''BE'' 1) (init 1000000 damaged_tree)))
     (artifact_path ''BE'' 1) =
     Some (xml_declaration @ root_open @
           ''  <businesscard><entity countrycode=\"BE\"><name name=\"Acme5 Corp!\" /></entity></busine'')"
  by (simp add: endswith_def damaged_artifact_def damaged_tree_def acme_line_def tag_defs
      reopen_output_def fopen_rw_def and_then_def exists_def st_size_def content_def Let_def
      init_def)

end
